theory Spec2Isabelle
  imports Main
begin

section \<open>The data model of src/gui/widget.hpp\<close>

subsection \<open>Enumerations\<close>

text \<open>
  \<^verbatim>\<open>enum WidgetType { WTYPE_NONE = -1, WTYPE_RIBBON, ..., WTYPE_RIBBON_GRID };\<close>
  The constructors are in the order of the header; \<open>WidgetType_value\<close> gives the integer
  the compiler assigns to each enumerator.
\<close>

datatype WidgetType =
    WTYPE_NONE
  | WTYPE_RIBBON
  | WTYPE_SPINNER
  | WTYPE_BUTTON
  | WTYPE_GAUGE
  | WTYPE_ICON_BUTTON
  | WTYPE_CHECKBOX
  | WTYPE_LABEL
  | WTYPE_MODEL
  | WTYPE_SPACER
  | WTYPE_DIV
  | WTYPE_RIBBON_GRID

fun WidgetType_value :: "WidgetType \<Rightarrow> int" where
  "WidgetType_value WTYPE_NONE = -1"
| "WidgetType_value WTYPE_RIBBON = 0"
| "WidgetType_value WTYPE_SPINNER = 1"
| "WidgetType_value WTYPE_BUTTON = 2"
| "WidgetType_value WTYPE_GAUGE = 3"
| "WidgetType_value WTYPE_ICON_BUTTON = 4"
| "WidgetType_value WTYPE_CHECKBOX = 5"
| "WidgetType_value WTYPE_LABEL = 6"
| "WidgetType_value WTYPE_MODEL = 7"
| "WidgetType_value WTYPE_SPACER = 8"
| "WidgetType_value WTYPE_DIV = 9"
| "WidgetType_value WTYPE_RIBBON_GRID = 10"

text \<open>\<^verbatim>\<open>enum Property { PROP_ID = 100, PROP_PROPORTION, ..., PROP_MAX_VALUE };\<close>\<close>

datatype Property =
    PROP_ID
  | PROP_PROPORTION
  | PROP_WIDTH
  | PROP_HEIGHT
  | PROP_CHILD_WIDTH
  | PROP_CHILD_HEIGHT
  | PROP_WORD_WRAP
  | PROP_GROW_WITH_TEXT
  | PROP_X
  | PROP_Y
  | PROP_LAYOUT
  | PROP_ALIGN
  | PROP_TEXT
  | PROP_ICON
  | PROP_TEXT_ALIGN
  | PROP_MIN_VALUE
  | PROP_MAX_VALUE

fun Property_value :: "Property \<Rightarrow> int" where
  "Property_value PROP_ID = 100"
| "Property_value PROP_PROPORTION = 101"
| "Property_value PROP_WIDTH = 102"
| "Property_value PROP_HEIGHT = 103"
| "Property_value PROP_CHILD_WIDTH = 104"
| "Property_value PROP_CHILD_HEIGHT = 105"
| "Property_value PROP_WORD_WRAP = 106"
| "Property_value PROP_GROW_WITH_TEXT = 107"
| "Property_value PROP_X = 108"
| "Property_value PROP_Y = 109"
| "Property_value PROP_LAYOUT = 110"
| "Property_value PROP_ALIGN = 111"
| "Property_value PROP_TEXT = 112"
| "Property_value PROP_ICON = 113"
| "Property_value PROP_TEXT_ALIGN = 114"
| "Property_value PROP_MIN_VALUE = 115"
| "Property_value PROP_MAX_VALUE = 116"

text \<open>\<^verbatim>\<open>enum RibbonType { RIBBON_COMBO, RIBBON_TOOLBAR, RIBBON_TABS };\<close>\<close>

datatype RibbonType = RIBBON_COMBO | RIBBON_TOOLBAR | RIBBON_TABS

subsection \<open>The Widget base class\<close>

text \<open>
  A pointer is an address or \<open>None\<close> for \<^verbatim>\<open>NULL\<close>. The children of a widget are owned by
  its \<^verbatim>\<open>ptr_vector<Widget> m_children\<close>, so they are nested values; \<^verbatim>\<open>m_parent\<close> and
  \<^verbatim>\<open>m_element\<close> are plain pointers to objects owned elsewhere, so they are addresses.
  \<^verbatim>\<open>std::map<Property, std::string> m_properties\<close> is a partial map. The fields
  \<^verbatim>\<open>x, y, w, h, id\<close> carry the prefix \<open>widget_\<close>, since a selector of that name would
  capture the variables of every later statement. The \<^verbatim>\<open>int\<close> fields are integers: the
  header compares and indexes with them and does no arithmetic that could wrap.
\<close>

type_synonym addr = nat

datatype Widget = Widget
  (m_selected: bool)
  (m_parent: "addr option")
  (m_children: "Widget list")
  (m_type: WidgetType)
  (widget_x: int)
  (widget_y: int)
  (widget_w: int)
  (widget_h: int)
  (widget_id: int)
  (m_element: "addr option")
  (m_properties: "Property \<rightharpoonup> string")

text \<open>Assignment to a single field of a widget.\<close>

fun set_m_properties :: "(Property \<rightharpoonup> string) \<Rightarrow> Widget \<Rightarrow> Widget" where
  "set_m_properties ps (Widget sel par cs ty x y w h i el _) =
     Widget sel par cs ty x y w h i el ps"

fun set_m_children :: "Widget list \<Rightarrow> Widget \<Rightarrow> Widget" where
  "set_m_children cs (Widget sel par _ ty x y w h i el ps) =
     Widget sel par cs ty x y w h i el ps"

subsection \<open>The classes of the hierarchy\<close>

text \<open>
  The dynamic class of an object: the base class and the eight classes the header
  derives from it, in the order of their declarations.
\<close>

datatype WidgetClass =
    Class_Widget
  | Class_ButtonWidget
  | Class_LabelWidget
  | Class_CheckBoxWidget
  | Class_GaugeWidget
  | Class_SpinnerWidget
  | Class_IconButtonWidget
  | Class_RibbonWidget
  | Class_RibbonGridWidget

text \<open>
  Which classes redeclare each virtual handler of \<^verbatim>\<open>Widget\<close>: SpinnerWidget redeclares
  \<^verbatim>\<open>transmitEvent\<close>, \<^verbatim>\<open>rightPressed\<close>, \<^verbatim>\<open>leftPressed\<close>; RibbonWidget and
  RibbonGridWidget redeclare these three and \<^verbatim>\<open>mouseHovered\<close>. The other classes redeclare
  \<^verbatim>\<open>add\<close> only.
\<close>

fun overrides_rightPressed :: "WidgetClass \<Rightarrow> bool" where
  "overrides_rightPressed Class_SpinnerWidget = True"
| "overrides_rightPressed Class_RibbonWidget = True"
| "overrides_rightPressed Class_RibbonGridWidget = True"
| "overrides_rightPressed _ = False"

fun overrides_leftPressed :: "WidgetClass \<Rightarrow> bool" where
  "overrides_leftPressed Class_SpinnerWidget = True"
| "overrides_leftPressed Class_RibbonWidget = True"
| "overrides_leftPressed Class_RibbonGridWidget = True"
| "overrides_leftPressed _ = False"

fun overrides_transmitEvent :: "WidgetClass \<Rightarrow> bool" where
  "overrides_transmitEvent Class_SpinnerWidget = True"
| "overrides_transmitEvent Class_RibbonWidget = True"
| "overrides_transmitEvent Class_RibbonGridWidget = True"
| "overrides_transmitEvent _ = False"

fun overrides_mouseHovered :: "WidgetClass \<Rightarrow> bool" where
  "overrides_mouseHovered Class_RibbonWidget = True"
| "overrides_mouseHovered Class_RibbonGridWidget = True"
| "overrides_mouseHovered _ = False"

subsection \<open>The virtual handlers of Widget\<close>

text \<open>
  The bodies of the base class:
  \<^verbatim>\<open>virtual bool rightPressed() { return false; }\<close>,
  \<^verbatim>\<open>virtual bool leftPressed() { return false; }\<close>,
  \<^verbatim>\<open>virtual bool transmitEvent(Widget* w, std::string& originator) { return true; }\<close>,
  \<^verbatim>\<open>virtual bool mouseHovered(Widget* child) { return false; }\<close>.
  Each returns whether the main event handler should be notified.
\<close>

definition rightPressed :: "Widget \<Rightarrow> bool" where
  "rightPressed this = False"

definition leftPressed :: "Widget \<Rightarrow> bool" where
  "leftPressed this = False"

definition transmitEvent :: "Widget \<Rightarrow> Widget \<Rightarrow> string \<Rightarrow> bool" where
  "transmitEvent this w originator = True"

definition mouseHovered :: "Widget \<Rightarrow> Widget \<Rightarrow> bool" where
  "mouseHovered this child = False"

text \<open>
  The bodies of the overriding handlers are not in the header, so a virtual call takes
  them as a parameter: what each overriding class answers.
\<close>

record Overrides =
  rightPressed_of :: "WidgetClass \<Rightarrow> Widget \<Rightarrow> bool"
  leftPressed_of :: "WidgetClass \<Rightarrow> Widget \<Rightarrow> bool"
  transmitEvent_of :: "WidgetClass \<Rightarrow> Widget \<Rightarrow> Widget \<Rightarrow> string \<Rightarrow> bool"
  mouseHovered_of :: "WidgetClass \<Rightarrow> Widget \<Rightarrow> Widget \<Rightarrow> bool"

definition call_rightPressed :: "Overrides \<Rightarrow> WidgetClass \<Rightarrow> Widget \<Rightarrow> bool" where
  "call_rightPressed ov cls this =
     (if overrides_rightPressed cls then rightPressed_of ov cls this else rightPressed this)"

definition call_leftPressed :: "Overrides \<Rightarrow> WidgetClass \<Rightarrow> Widget \<Rightarrow> bool" where
  "call_leftPressed ov cls this =
     (if overrides_leftPressed cls then leftPressed_of ov cls this else leftPressed this)"

definition call_transmitEvent ::
  "Overrides \<Rightarrow> WidgetClass \<Rightarrow> Widget \<Rightarrow> Widget \<Rightarrow> string \<Rightarrow> bool" where
  "call_transmitEvent ov cls this w originator =
     (if overrides_transmitEvent cls then transmitEvent_of ov cls this w originator
      else transmitEvent this w originator)"

definition call_mouseHovered :: "Overrides \<Rightarrow> WidgetClass \<Rightarrow> Widget \<Rightarrow> Widget \<Rightarrow> bool" where
  "call_mouseHovered ov cls this child =
     (if overrides_mouseHovered cls then mouseHovered_of ov cls this child
      else mouseHovered this child)"

subsection \<open>Reading and writing m_properties\<close>

text \<open>
  \<^verbatim>\<open>std::map::operator[]\<close>: the value stored under the key; a key that is absent is
  first inserted with the empty string. The result is the string and the map after the
  call.
\<close>

definition map_subscript :: "('k \<rightharpoonup> string) \<Rightarrow> 'k \<Rightarrow> string \<times> ('k \<rightharpoonup> string)" where
  "map_subscript m k = (case m k of Some v \<Rightarrow> (v, m) | None \<Rightarrow> ('''', m(k \<mapsto> '''')))"

text \<open>\<^verbatim>\<open>widget.m_properties[key] = value;\<close>\<close>

definition store_property :: "Widget \<Rightarrow> Property \<Rightarrow> string \<Rightarrow> Widget" where
  "store_property this key val =
     (let (_, ps) = map_subscript (m_properties this) key
      in set_m_properties (ps(key \<mapsto> val)) this)"

text \<open>\<^verbatim>\<open>widget.m_properties[key]\<close> as an expression: the string read and the widget after.\<close>

definition read_property :: "Widget \<Rightarrow> Property \<Rightarrow> string \<times> Widget" where
  "read_property this key =
     (let (s, ps) = map_subscript (m_properties this) key
      in (s, set_m_properties ps this))"

subsection \<open>Widget::isSelected\<close>

text \<open>
  \<^verbatim>\<open>bool isSelected() const { return m_selected; }\<close>
  The accessors return the value read together with the object after the call.
\<close>

definition isSelected :: "Widget \<Rightarrow> bool \<times> Widget" where
  "isSelected this = (m_selected this, this)"

subsection \<open>RibbonWidget\<close>

text \<open>
  \<^verbatim>\<open>class RibbonWidget : public Widget\<close>: the base subobject and the two members the
  class adds.
\<close>

record RibbonWidget =
  ribbon_base :: Widget
  m_selection :: int
  m_ribbon_type :: RibbonType

definition getSelection :: "RibbonWidget \<Rightarrow> int \<times> RibbonWidget" where
  "getSelection this = (m_selection this, this)"

definition getRibbonType :: "RibbonWidget \<Rightarrow> RibbonType \<times> RibbonWidget" where
  "getRibbonType this = (m_ribbon_type this, this)"

datatype error = OutOfBounds

text \<open>
  Modelled from the spec: \<^verbatim>\<open>ptr_vector<T>::operator[]\<close>, whose header ptr_vector.hpp is
  included by widget.hpp and is not among the sources. Indexing is defined for
  \<open>0 \<le> i < size\<close> and is an out-of-bounds access otherwise.
\<close>

definition ptr_vector_subscript :: "'a list \<Rightarrow> int \<Rightarrow> error + 'a" where
  "ptr_vector_subscript v i =
     (if 0 \<le> i \<and> i < int (length v) then Inr (v ! nat i) else Inl OutOfBounds)"

text \<open>
  \<^verbatim>\<open>const std::string& getSelectionName()
    { return m_children[m_selection].m_properties[PROP_ID]; }\<close>
  The method is not \<^verbatim>\<open>const\<close>: the result is the string and the ribbon after the call,
  in which the selected child holds the map that \<^verbatim>\<open>operator[]\<close> left.
\<close>

definition getSelectionName :: "RibbonWidget \<Rightarrow> error + (string \<times> RibbonWidget)" where
  "getSelectionName this =
     (case ptr_vector_subscript (m_children (ribbon_base this)) (m_selection this) of
        Inl e \<Rightarrow> Inl e
      | Inr child \<Rightarrow>
          (let (s, child') = read_property child PROP_ID;
               children' = (m_children (ribbon_base this))[nat (m_selection this) := child']
           in Inr (s, this\<lparr>ribbon_base := set_m_children children' (ribbon_base this)\<rparr>)))"

subsection \<open>Type tags\<close>

text \<open>
  Modelled from the spec: the tag of each derived class. The constructors that assign
  \<^verbatim>\<open>m_type\<close> are not in the header; each of the eight element kinds has the enumerator
  of its name. The base class has no tag of its own.
\<close>

fun class_tag :: "WidgetClass \<Rightarrow> WidgetType option" where
  "class_tag Class_Widget = None"
| "class_tag Class_ButtonWidget = Some WTYPE_BUTTON"
| "class_tag Class_LabelWidget = Some WTYPE_LABEL"
| "class_tag Class_CheckBoxWidget = Some WTYPE_CHECKBOX"
| "class_tag Class_GaugeWidget = Some WTYPE_GAUGE"
| "class_tag Class_SpinnerWidget = Some WTYPE_SPINNER"
| "class_tag Class_IconButtonWidget = Some WTYPE_ICON_BUTTON"
| "class_tag Class_RibbonWidget = Some WTYPE_RIBBON"
| "class_tag Class_RibbonGridWidget = Some WTYPE_RIBBON_GRID"

text \<open>The derived classes, and the tags of the element kinds.\<close>

definition derived_classes :: "WidgetClass list" where
  "derived_classes =
     [Class_ButtonWidget, Class_LabelWidget, Class_CheckBoxWidget, Class_GaugeWidget,
      Class_SpinnerWidget, Class_IconButtonWidget, Class_RibbonWidget,
      Class_RibbonGridWidget]"

definition element_tags :: "WidgetType list" where
  "element_tags = map (the \<circ> class_tag) derived_classes"

text \<open>The enumerators that are the tag of no derived class.\<close>

definition other_tags :: "WidgetType list" where
  "other_tags = [WTYPE_NONE, WTYPE_MODEL, WTYPE_SPACER, WTYPE_DIV]"

text \<open>A widget that is a plain container: a \<^verbatim>\<open>Widget\<close> tagged \<^verbatim>\<open>WTYPE_DIV\<close>.\<close>

definition div_widget :: Widget where
  "div_widget = Widget False None [] WTYPE_DIV 0 0 0 0 0 None Map.empty"

subsection \<open>Sample objects\<close>

text \<open>
  Concrete objects on which the operations are evaluated: overriding handlers that all
  report no change, a ribbon with two icon buttons of which only the first has an
  identifier, and a label inside a plain container.
\<close>

definition quiet_overrides :: Overrides where
  "quiet_overrides =
     \<lparr>rightPressed_of = (\<lambda>_ _. False), leftPressed_of = (\<lambda>_ _. False),
      transmitEvent_of = (\<lambda>_ _ _ _. False), mouseHovered_of = (\<lambda>_ _ _. False)\<rparr>"

definition named_child :: Widget where
  "named_child =
     Widget False (Some 1) [] WTYPE_ICON_BUTTON 0 0 0 0 0 None [PROP_ID \<mapsto> ''karts'']"

definition unnamed_child :: Widget where
  "unnamed_child = Widget False (Some 1) [] WTYPE_ICON_BUTTON 0 0 0 0 0 None Map.empty"

definition ribbon_at :: "int \<Rightarrow> RibbonWidget" where
  "ribbon_at i =
     \<lparr>ribbon_base = Widget False None [named_child, unnamed_child] WTYPE_RIBBON 0 0 0 0 0 None
        Map.empty,
      m_selection = i, m_ribbon_type = RIBBON_COMBO\<rparr>"

definition boxed_label :: Widget where
  "boxed_label = Widget False (Some 2) [] WTYPE_LABEL 0 0 0 0 0 None [PROP_TEXT \<mapsto> ''Race'']"

section \<open>Properties\<close>

subsection \<open>Field assignment and the property map\<close>

lemma m_properties_set_m_properties [simp]:
  "m_properties (set_m_properties ps w) = ps"
  by (cases w) simp

lemma m_children_set_m_children [simp]:
  "m_children (set_m_children cs w) = cs"
  by (cases w) simp

lemma set_m_properties_same [simp]:
  "set_m_properties (m_properties w) w = w"
  by (cases w) simp

lemma set_m_children_same [simp]:
  "set_m_children (m_children w) w = w"
  by (cases w) simp

lemma m_properties_store_property:
  "m_properties (store_property w k v) = (m_properties w)(k \<mapsto> v)"
  by (auto simp: store_property_def map_subscript_def split: option.split)

lemma read_property_present:
  "m_properties w k = Some t \<Longrightarrow> read_property w k = (t, w)"
  by (simp add: read_property_def map_subscript_def)

lemma read_property_absent:
  "m_properties w k = None \<Longrightarrow>
   read_property w k = ('''', set_m_properties ((m_properties w)(k \<mapsto> '''')) w)"
  by (simp add: read_property_def map_subscript_def)

lemma fst_read_property:
  "fst (read_property w k) = (case m_properties w k of Some v \<Rightarrow> v | None \<Rightarrow> '''')"
  by (cases "m_properties w k") (simp_all add: read_property_present read_property_absent)

lemma snd_read_property_key:
  "m_properties (snd (read_property w k)) k = Some (fst (read_property w k))"
  by (cases "m_properties w k") (simp_all add: read_property_present read_property_absent)

text \<open>
  C4: a string stored under a Property key of a widget's \<^verbatim>\<open>m_properties\<close> is what a
  read of that key returns, and the store leaves the value under every other key as it
  was (both the map entry and what a read of the other key returns).
\<close>

theorem property_store_then_read:
  "fst (read_property (store_property w k v) k) = v \<and>
   m_properties (store_property w k v) k = Some v \<and>
   (k' \<noteq> k \<longrightarrow>
      m_properties (store_property w k v) k' = m_properties w k' \<and>
      fst (read_property (store_property w k v) k') = fst (read_property w k'))"
  by (simp add: fst_read_property m_properties_store_property)

theorem property_store_then_read_witness:
  "PROP_TEXT \<noteq> PROP_ID \<and>
   fst (read_property (store_property boxed_label PROP_ID ''play'') PROP_ID) = ''play'' \<and>
   m_properties (store_property boxed_label PROP_ID ''play'') PROP_TEXT = Some ''Race'' \<and>
   fst (read_property (store_property boxed_label PROP_ID ''play'') PROP_TEXT) = ''Race''"
  using property_store_then_read [of boxed_label PROP_ID "''play''" PROP_TEXT]
  by (simp add: boxed_label_def fst_read_property)

subsection \<open>The handlers of the base class\<close>

text \<open>
  C7: on a widget whose class does not override the handler, \<^verbatim>\<open>rightPressed()\<close>,
  \<^verbatim>\<open>leftPressed()\<close> and \<^verbatim>\<open>mouseHovered(child)\<close> return false, so the main event handler
  is not notified, and \<^verbatim>\<open>transmitEvent(w, originator)\<close> returns true, so it is.
\<close>

theorem base_handlers_default:
  "(\<not> overrides_rightPressed cls \<longrightarrow> call_rightPressed ov cls this = False) \<and>
   (\<not> overrides_leftPressed cls \<longrightarrow> call_leftPressed ov cls this = False) \<and>
   (\<not> overrides_mouseHovered cls \<longrightarrow> call_mouseHovered ov cls this child = False) \<and>
   (\<not> overrides_transmitEvent cls \<longrightarrow> call_transmitEvent ov cls this w originator = True)"
  by (simp add: call_rightPressed_def call_leftPressed_def call_mouseHovered_def
      call_transmitEvent_def rightPressed_def leftPressed_def mouseHovered_def
      transmitEvent_def)

theorem base_handlers_default_witness:
  "\<not> overrides_rightPressed Class_ButtonWidget \<and>
   \<not> overrides_leftPressed Class_ButtonWidget \<and>
   \<not> overrides_mouseHovered Class_ButtonWidget \<and>
   \<not> overrides_transmitEvent Class_ButtonWidget \<and>
   \<not> call_rightPressed quiet_overrides Class_ButtonWidget div_widget \<and>
   \<not> call_leftPressed quiet_overrides Class_ButtonWidget div_widget \<and>
   \<not> call_mouseHovered quiet_overrides Class_ButtonWidget div_widget boxed_label \<and>
   call_transmitEvent quiet_overrides Class_ButtonWidget div_widget boxed_label ''ok''"
  using base_handlers_default
    [of Class_ButtonWidget quiet_overrides div_widget boxed_label boxed_label "''ok''"]
  by simp

subsection \<open>The const accessors\<close>

text \<open>
  C8: \<^verbatim>\<open>isSelected()\<close> returns \<^verbatim>\<open>m_selected\<close>, \<^verbatim>\<open>getSelection()\<close> returns
  \<^verbatim>\<open>m_selection\<close> and \<^verbatim>\<open>getRibbonType()\<close> returns \<^verbatim>\<open>m_ribbon_type\<close>; the object after
  each call, with all its fields and children, is the object before it.
\<close>

theorem const_accessors_pure:
  "isSelected w = (m_selected w, w) \<and>
   getSelection r = (m_selection r, r) \<and>
   getRibbonType r = (m_ribbon_type r, r)"
  by (simp add: isSelected_def getSelection_def getRibbonType_def)

subsection \<open>RibbonWidget::getSelectionName\<close>

lemma ptr_vector_subscript_valid:
  "0 \<le> i \<Longrightarrow> i < int (length v) \<Longrightarrow> ptr_vector_subscript v i = Inr (v ! nat i)"
  by (simp add: ptr_vector_subscript_def)

lemma getSelectionName_valid:
  assumes "0 \<le> m_selection r" "m_selection r < int (length (m_children (ribbon_base r)))"
  shows "getSelectionName r =
     Inr (fst (read_property (m_children (ribbon_base r) ! nat (m_selection r)) PROP_ID),
          r\<lparr>ribbon_base := set_m_children
              ((m_children (ribbon_base r))[nat (m_selection r) :=
                 snd (read_property (m_children (ribbon_base r) ! nat (m_selection r)) PROP_ID)])
              (ribbon_base r)\<rparr>)"
  using assms
  by (simp add: getSelectionName_def ptr_vector_subscript_valid split_beta Let_def)

lemma getSelectionName_invalid:
  "\<not> (0 \<le> m_selection r \<and> m_selection r < int (length (m_children (ribbon_base r)))) \<Longrightarrow>
   getSelectionName r = Inl OutOfBounds"
  by (auto simp: getSelectionName_def ptr_vector_subscript_def)

text \<open>
  C3: when the selection index of a ribbon is a valid index into its children,
  \<^verbatim>\<open>getSelectionName()\<close> returns a string, and that string is the one stored under
  \<^verbatim>\<open>PROP_ID\<close> in the child at that index: it is what the child holds under
  \<^verbatim>\<open>PROP_ID\<close> after the call, and where the child held an identifier before the call
  it is that identifier and the ribbon is unchanged.
\<close>

theorem getSelectionName_returns_child_id:
  assumes "0 \<le> m_selection r" "m_selection r < int (length (m_children (ribbon_base r)))"
  shows "\<exists>s r'. getSelectionName r = Inr (s, r') \<and>
           m_selection r' = m_selection r \<and>
           m_properties (m_children (ribbon_base r') ! nat (m_selection r)) PROP_ID = Some s \<and>
           (\<forall>t. m_properties (m_children (ribbon_base r) ! nat (m_selection r)) PROP_ID = Some t
                \<longrightarrow> s = t \<and> r' = r)"
proof -
  let ?cs = "m_children (ribbon_base r)"
  let ?i = "nat (m_selection r)"
  let ?s = "fst (read_property (?cs ! ?i) PROP_ID)"
  let ?r' = "r\<lparr>ribbon_base := set_m_children
              (?cs[?i := snd (read_property (?cs ! ?i) PROP_ID)]) (ribbon_base r)\<rparr>"
  from assms have i: "?i < length ?cs" by simp
  have run: "getSelectionName r = Inr (?s, ?r')"
    by (rule getSelectionName_valid [OF assms])
  have sel: "m_selection ?r' = m_selection r" by simp
  have stored: "m_properties (m_children (ribbon_base ?r') ! ?i) PROP_ID = Some ?s"
    using i by (simp add: snd_read_property_key)
  have same: "?s = t \<and> ?r' = r"
    if "m_properties (?cs ! ?i) PROP_ID = Some t" for t
    using that by (simp add: read_property_present)
  from run sel stored same show ?thesis by blast
qed

theorem getSelectionName_returns_child_id_witness:
  "0 \<le> m_selection (ribbon_at 0) \<and>
   m_selection (ribbon_at 0) < int (length (m_children (ribbon_base (ribbon_at 0)))) \<and>
   getSelectionName (ribbon_at 0) = Inr (''karts'', ribbon_at 0)"
  using getSelectionName_returns_child_id [of "ribbon_at 0"]
  by (simp add: ribbon_at_def named_child_def)

text \<open>
  C9: \<^verbatim>\<open>getSelectionName()\<close> indexes out of bounds exactly when
  \<open>0 \<le> m_selection < number of children\<close> fails; and it is not a pure accessor: when the
  selected child has no \<^verbatim>\<open>PROP_ID\<close> entry, the call returns the empty string and leaves
  that child's \<^verbatim>\<open>m_properties\<close> with the empty string inserted under \<^verbatim>\<open>PROP_ID\<close>, so
  the ribbon after the call differs from the ribbon before it.
\<close>

theorem getSelectionName_unsafe_and_impure:
  "(getSelectionName r = Inl OutOfBounds \<longleftrightarrow>
      \<not> (0 \<le> m_selection r \<and> m_selection r < int (length (m_children (ribbon_base r))))) \<and>
   (0 \<le> m_selection r \<and> m_selection r < int (length (m_children (ribbon_base r))) \<and>
    m_properties (m_children (ribbon_base r) ! nat (m_selection r)) PROP_ID = None \<longrightarrow>
      (\<exists>r'. getSelectionName r = Inr ('''', r') \<and>
            m_properties (m_children (ribbon_base r') ! nat (m_selection r)) =
              (m_properties (m_children (ribbon_base r) ! nat (m_selection r)))(PROP_ID \<mapsto> '''') \<and>
            r' \<noteq> r))"
proof (intro conjI impI)
  show "getSelectionName r = Inl OutOfBounds \<longleftrightarrow>
      \<not> (0 \<le> m_selection r \<and> m_selection r < int (length (m_children (ribbon_base r))))"
  proof
    assume "getSelectionName r = Inl OutOfBounds"
    then show "\<not> (0 \<le> m_selection r \<and> m_selection r < int (length (m_children (ribbon_base r))))"
      by (auto simp: getSelectionName_valid)
  next
    assume "\<not> (0 \<le> m_selection r \<and> m_selection r < int (length (m_children (ribbon_base r))))"
    then show "getSelectionName r = Inl OutOfBounds"
      by (rule getSelectionName_invalid)
  qed
next
  let ?cs = "m_children (ribbon_base r)"
  let ?i = "nat (m_selection r)"
  let ?r' = "r\<lparr>ribbon_base := set_m_children
              (?cs[?i := snd (read_property (?cs ! ?i) PROP_ID)]) (ribbon_base r)\<rparr>"
  assume a: "0 \<le> m_selection r \<and> m_selection r < int (length ?cs) \<and>
    m_properties (?cs ! ?i) PROP_ID = None"
  then have none: "m_properties (?cs ! ?i) PROP_ID = None"
    by simp
  from a have i: "?i < length ?cs"
    by auto
  from a have run: "getSelectionName r = Inr ('''', ?r')"
    by (simp add: getSelectionName_valid read_property_absent)
  have props: "m_properties (m_children (ribbon_base ?r') ! ?i) =
      (m_properties (?cs ! ?i))(PROP_ID \<mapsto> '''')"
    using i none by (simp add: read_property_absent)
  have "m_properties (m_children (ribbon_base ?r') ! ?i) PROP_ID \<noteq>
        m_properties (?cs ! ?i) PROP_ID"
    unfolding props using none by simp
  then have "?r' \<noteq> r" by metis
  with run props show "\<exists>r'. getSelectionName r = Inr ('''', r') \<and>
            m_properties (m_children (ribbon_base r') ! ?i) =
              (m_properties (?cs ! ?i))(PROP_ID \<mapsto> '''') \<and> r' \<noteq> r"
    by blast
qed

theorem getSelectionName_unsafe_and_impure_witness:
  "getSelectionName (ribbon_at 2) = Inl OutOfBounds \<and>
   getSelectionName (ribbon_at (- 1)) = Inl OutOfBounds \<and>
   0 \<le> m_selection (ribbon_at 1) \<and>
   m_selection (ribbon_at 1) < int (length (m_children (ribbon_base (ribbon_at 1)))) \<and>
   m_properties (m_children (ribbon_base (ribbon_at 1)) ! nat (m_selection (ribbon_at 1))) PROP_ID
     = None \<and>
   (\<exists>r'. getSelectionName (ribbon_at 1) = Inr ('''', r') \<and>
      m_properties (m_children (ribbon_base r') ! nat (m_selection (ribbon_at 1))) =
        (m_properties (m_children (ribbon_base (ribbon_at 1)) ! nat (m_selection (ribbon_at 1))))
          (PROP_ID \<mapsto> '''') \<and>
      r' \<noteq> ribbon_at 1)"
  using getSelectionName_unsafe_and_impure [of "ribbon_at 2"]
    getSelectionName_unsafe_and_impure [of "ribbon_at (- 1)"]
    getSelectionName_unsafe_and_impure [of "ribbon_at 1"]
  by (simp add: ribbon_at_def unnamed_child_def)

subsection \<open>Type tags\<close>

text \<open>
  A plain container is a widget, and its tag \<^verbatim>\<open>WTYPE_DIV\<close> is the tag of none of the
  eight element kinds.
\<close>

theorem div_widget_tag_counterexample:
  "m_type div_widget \<notin> set element_tags"
  by (simp add: div_widget_def element_tags_def derived_classes_def)

text \<open>
  C2, amended: there are eight classes derived from \<^verbatim>\<open>Widget\<close>, one for each of the
  element kinds, each with a \<^verbatim>\<open>WidgetType\<close> tag of its own, all different; the
  enumerators have different values; and the \<^verbatim>\<open>m_type\<close> of every widget is exactly one
  enumerator, which is either one of these eight tags or one of \<^verbatim>\<open>WTYPE_NONE\<close>,
  \<^verbatim>\<open>WTYPE_MODEL\<close>, \<^verbatim>\<open>WTYPE_SPACER\<close>, \<^verbatim>\<open>WTYPE_DIV\<close>, which no derived class has.
\<close>

theorem widget_type_tags:
  "length derived_classes = 8 \<and>
   distinct (map class_tag derived_classes) \<and>
   None \<notin> set (map class_tag derived_classes) \<and>
   distinct (map WidgetType_value (element_tags @ other_tags)) \<and>
   set element_tags \<inter> set other_tags = {} \<and>
   m_type w \<in> set element_tags \<union> set other_tags"
proof -
  have "m_type w \<in> set element_tags \<union> set other_tags"
    by (cases "m_type w") (simp_all add: element_tags_def derived_classes_def other_tags_def)
  then show ?thesis
    by (simp add: element_tags_def derived_classes_def other_tags_def)
qed

end
